theory Spec2Isabelle
  imports Main
begin

section \<open>JavaScript values of an argument bag\<close>

text \<open>
  The tool handlers of \<^verbatim>\<open>timechimp-mcp-server.js\<close> receive the \<^verbatim>\<open>arguments\<close> object of a
  \<^verbatim>\<open>tools/call\<close> request. The low-level MCP \<^verbatim>\<open>Server\<close> does not check it against the
  declared input schema, so a field may hold any JSON value. The model covers the
  primitive ones; a key that is absent reads as \<^verbatim>\<open>undefined\<close>, as destructuring does.
  Numbers are integers here (fractions, and the exponent notation JavaScript uses from
  1e21 on, are outside the model).
\<close>

datatype jsval = JUndefined | JNull | JBool bool | JNum int | JStr string

type_synonym args = "string \<Rightarrow> jsval"

definition no_args :: args where
  "no_args = (\<lambda>k. JUndefined)"

text \<open>The truthiness test of \<^verbatim>\<open>if (v)\<close>, \<^verbatim>\<open>!v\<close> and \<^verbatim>\<open>v ? a : b\<close>.\<close>

fun truthy :: "jsval \<Rightarrow> bool" where
  "truthy JUndefined = False"
| "truthy JNull = False"
| "truthy (JBool b) = b"
| "truthy (JNum n) = (n \<noteq> 0)"
| "truthy (JStr s) = (s \<noteq> [])"

definition digit_char :: "nat \<Rightarrow> char" where
  "digit_char d = ''0123456789'' ! d"

fun show_nat :: "nat \<Rightarrow> string" where
  "show_nat n = (if n < 10 then [digit_char n] else show_nat (n div 10) @ [digit_char (n mod 10)])"

declare show_nat.simps [simp del]

definition show_int :: "int \<Rightarrow> string" where
  "show_int i = (if i < 0 then CHR ''-'' # show_nat (nat (- i)) else show_nat (nat i))"

text \<open>String conversion, as a template literal \<^verbatim>\<open>`${v}`\<close> and \<^verbatim>\<open>URLSearchParams\<close> apply it.\<close>

fun toStr :: "jsval \<Rightarrow> string" where
  "toStr JUndefined = ''undefined''"
| "toStr JNull = ''null''"
| "toStr (JBool b) = (if b then ''true'' else ''false'')"
| "toStr (JNum n) = show_int n"
| "toStr (JStr s) = s"

section \<open>Filter Composer\<close>

text \<open>
  The ternary \<^verbatim>\<open>filterExpression ? `${filterExpression} and ${x}` : x\<close> that
  \<^verbatim>\<open>buildFilterExpression\<close> repeats for each fragment built by a template literal.
\<close>

definition and_with :: "jsval \<Rightarrow> string \<Rightarrow> jsval" where
  "and_with filterExpression x =
     (if truthy filterExpression then JStr (toStr filterExpression @ '' and '' @ x) else JStr x)"

text \<open>
  \<^verbatim>\<open>buildFilterExpression(args = {})\<close>, lines 2827-2871. The last step joins the raw
  \<^verbatim>\<open>filter\<close> value itself, not a template literal: when nothing precedes it, the value
  is returned as it is, whatever its type.
\<close>

definition buildFilterExpression :: "args \<Rightarrow> jsval" where
  "buildFilterExpression a =
     (let active_only = a ''active_only''; user_id = a ''user_id'';
          project_id = a ''project_id''; customer_id = a ''customer_id'';
          from_date = a ''from_date''; to_date = a ''to_date''; filter = a ''filter'';
          fe0 = JStr [];
          fe1 = (if truthy active_only then JStr ''active eq true'' else fe0);
          fe2 = (if truthy user_id then and_with fe1 (''user/id eq '' @ toStr user_id) else fe1);
          fe3 = (if truthy project_id
                 then and_with fe2 (''project/id eq '' @ toStr project_id) else fe2);
          fe4 = (if truthy customer_id
                 then and_with fe3 (''customer/id eq '' @ toStr customer_id) else fe3);
          fe5 = (if truthy from_date then and_with fe4 (''date ge '' @ toStr from_date) else fe4);
          fe6 = (if truthy to_date then and_with fe5 (''date le '' @ toStr to_date) else fe5);
          fe7 = (if truthy filter
                 then (if truthy fe6 then JStr (toStr fe6 @ '' and '' @ toStr filter) else filter)
                 else fe6)
      in fe7)"

subsection \<open>What the specification says the composed filter is\<close>

text \<open>
  The seven filter sources in the fixed order of the specification, each with the
  fragment it renders.
\<close>

definition filter_sources :: "(string \<times> (jsval \<Rightarrow> string)) list" where
  "filter_sources =
     [(''active_only'', \<lambda>v. ''active eq true''),
      (''user_id'', \<lambda>v. ''user/id eq '' @ toStr v),
      (''project_id'', \<lambda>v. ''project/id eq '' @ toStr v),
      (''customer_id'', \<lambda>v. ''customer/id eq '' @ toStr v),
      (''from_date'', \<lambda>v. ''date ge '' @ toStr v),
      (''to_date'', \<lambda>v. ''date le '' @ toStr v),
      (''filter'', toStr)]"

text \<open>
  Each source whose value is truthy contributes its fragment, the others nothing.
\<close>

definition present_fragments :: "args \<Rightarrow> string list" where
  "present_fragments a =
     concat (map (\<lambda>p. if truthy (a (fst p)) then [snd p (a (fst p))] else []) filter_sources)"

definition present_count :: "args \<Rightarrow> nat" where
  "present_count a = length (filter (\<lambda>p. truthy (a (fst p))) filter_sources)"

text \<open>Fragments joined by the connective: one connective between two neighbours.\<close>

fun join_and :: "string list \<Rightarrow> string" where
  "join_and [] = []"
| "join_and [f] = f"
| "join_and (f # g # fs) = f @ '' and '' @ join_and (g # fs)"

section \<open>Errors\<close>

text \<open>
  The three \<^verbatim>\<open>ErrorCode\<close> members the server uses. A thrown value is either an
  \<^verbatim>\<open>McpError\<close> built from a code and a message, or any other JavaScript error, of which
  only the \<^verbatim>\<open>message\<close> matters to the code (it is what \<^verbatim>\<open>instanceof McpError\<close>
  separates in both \<^verbatim>\<open>catch\<close> blocks).
\<close>

datatype error_code = InvalidRequest | MethodNotFound | InternalError

datatype js_error = McpError error_code string | JsError string

definition quote :: string where
  "quote = [char_of (39 :: nat)]"

text \<open>
  Calling \<^verbatim>\<open>v.toString()\<close>: a \<^verbatim>\<open>TypeError\<close> on \<^verbatim>\<open>null\<close> and \<^verbatim>\<open>undefined\<close> (the
  message is the one Node.js gives), the string conversion otherwise.
\<close>

definition js_toString :: "jsval \<Rightarrow> js_error + string" where
  "js_toString v =
     (if v = JUndefined \<or> v = JNull
      then Inl (JsError (''Cannot read properties of '' @ toStr v @ '' (reading '' @ quote
                         @ ''toString'' @ quote @ '')''))
      else Inr (toStr v))"

section \<open>Query Parameter Builder\<close>

text \<open>
  A \<^verbatim>\<open>URLSearchParams\<close> object is its list of name-value pairs. \<^verbatim>\<open>append\<close> adds a pair
  at the end; \<^verbatim>\<open>set\<close> overwrites the first pair of that name and removes the other
  ones, or appends when there is none.
\<close>

type_synonym params = "(string \<times> string) list"

definition usp_append :: "params \<Rightarrow> string \<Rightarrow> string \<Rightarrow> params" where
  "usp_append ps k v = ps @ [(k, v)]"

fun usp_set :: "params \<Rightarrow> string \<Rightarrow> string \<Rightarrow> params" where
  "usp_set [] k v = [(k, v)]"
| "usp_set (p # ps) k v =
     (if fst p = k then (k, v) # filter (\<lambda>q. fst q \<noteq> k) ps else p # usp_set ps k v)"

definition usp_getAll :: "params \<Rightarrow> string \<Rightarrow> string list" where
  "usp_getAll ps k = map snd (filter (\<lambda>q. fst q = k) ps)"

text \<open>
  \<^verbatim>\<open>toString()\<close> serialises as \<^verbatim>\<open>application/x-www-form-urlencoded\<close>: letters, digits
  and \<^verbatim>\<open>*-._\<close> stay, a space becomes \<^verbatim>\<open>+\<close>, every other byte is percent-encoded.
\<close>

definition url_safe :: "char \<Rightarrow> bool" where
  "url_safe c =
     (c \<in> set ''ABCDEFGHIJKLMNOPQRSTUVWXYZabcdefghijklmnopqrstuvwxyz0123456789*-._'')"

definition hex_char :: "nat \<Rightarrow> char" where
  "hex_char d = ''0123456789ABCDEF'' ! d"

definition urlencode_char :: "char \<Rightarrow> string" where
  "urlencode_char c =
     (if url_safe c then [c]
      else if c = CHR '' '' then ''+''
      else [CHR ''%'', hex_char (of_char c div 16), hex_char (of_char c mod 16)])"

definition urlencode :: "string \<Rightarrow> string" where
  "urlencode s = concat (map urlencode_char s)"

fun usp_toString :: "params \<Rightarrow> string" where
  "usp_toString [] = []"
| "usp_toString [p] = urlencode (fst p) @ ''='' @ urlencode (snd p)"
| "usp_toString (p # q # ps) =
     urlencode (fst p) @ ''='' @ urlencode (snd p) @ ''&'' @ usp_toString (q # ps)"

text \<open>
  \<^verbatim>\<open>buildQueryParams(args = {})\<close>, lines 2803-2822. \<^verbatim>\<open>top\<close> and \<^verbatim>\<open>skip\<close> are guarded
  by their truthiness, so \<^verbatim>\<open>toString()\<close> cannot fail on them; \<^verbatim>\<open>count\<close> is guarded by
  \<^verbatim>\<open>count !== undefined\<close> only.
\<close>

definition buildQueryParams :: "args \<Rightarrow> js_error + params" where
  "buildQueryParams a =
     (let top = a ''top''; skip = a ''skip''; count = a ''count''; expand = a ''expand'';
          filter = a ''filter''; orderby = a ''orderby'';
          p0 = [];
          p1 = (if truthy top then usp_append p0 ''$top'' (toStr top) else p0);
          p2 = (if truthy skip then usp_append p1 ''$skip'' (toStr skip) else p1)
      in case (if count \<noteq> JUndefined
               then (case js_toString count of
                       Inl e \<Rightarrow> Inl e
                     | Inr s \<Rightarrow> Inr (usp_append p2 ''$count'' s))
               else Inr p2) of
           Inl e \<Rightarrow> Inl e
         | Inr p3 \<Rightarrow>
             (let p4 = (if truthy expand then usp_append p3 ''$expand'' (toStr expand) else p3);
                  p5 = (if truthy orderby then usp_append p4 ''$orderby'' (toStr orderby) else p4);
                  p6 = (if truthy filter then usp_append p5 ''$filter'' (toStr filter) else p5)
              in Inr p6))"

section \<open>Authenticated Request Executor\<close>

text \<open>
  What \<^verbatim>\<open>fetch\<close> is given, and what it answers. A response carries its status line and
  its body: either the text read from it, or the message of the error with which reading
  fails. \<^verbatim>\<open>response.ok\<close> is a status from 200 to 299, \<^verbatim>\<open>response.json()\<close> reads the
  text and parses it.
\<close>

record request =
  url :: string
  http_method :: "string option"
  body :: "string option"
  headers :: "string \<rightharpoonup> string"

record response =
  status :: nat
  statusText :: string
  body_text :: "string + string"

datatype fetch_outcome = Rejected string | Responded response

definition ok :: "response \<Rightarrow> bool" where
  "ok r = (200 \<le> status r \<and> status r \<le> 299)"

text \<open>
  The parts of the platform the server calls: \<^verbatim>\<open>fetch\<close>, \<^verbatim>\<open>JSON.parse\<close> (inside
  \<^verbatim>\<open>response.json()\<close>; \<open>Inl\<close> is the message of its \<^verbatim>\<open>SyntaxError\<close>),
  \<^verbatim>\<open>JSON.stringify(data, null, 2)\<close>, and the \<^verbatim>\<open>message\<close> property that the SDK's
  \<^verbatim>\<open>McpError\<close> constructor derives from a code and a message.
\<close>

record 'd runtime =
  fetch :: "request \<Rightarrow> fetch_outcome"
  parseJSON :: "string \<Rightarrow> string + 'd"
  stringify :: "'d \<Rightarrow> string"
  mcpMessage :: "error_code \<Rightarrow> string \<Rightarrow> string"

definition response_text :: "response \<Rightarrow> js_error + string" where
  "response_text r = (case body_text r of Inl m \<Rightarrow> Inl (JsError m) | Inr s \<Rightarrow> Inr s)"

definition response_json :: "'d runtime \<Rightarrow> response \<Rightarrow> js_error + 'd" where
  "response_json rt r =
     (case body_text r of
        Inl m \<Rightarrow> Inl (JsError m)
      | Inr s \<Rightarrow> (case parseJSON rt s of Inl m \<Rightarrow> Inl (JsError m) | Inr d \<Rightarrow> Inr d))"

definition message :: "'d runtime \<Rightarrow> js_error \<Rightarrow> string" where
  "message rt e = (case e of McpError c m \<Rightarrow> mcpMessage rt c m | JsError m \<Rightarrow> m)"

text \<open>The \<^verbatim>\<open>options\<close> argument of \<^verbatim>\<open>makeRequest\<close>; an absent property is \<open>None\<close>.\<close>

record options =
  opt_method :: "string option"
  opt_body :: "string option"
  opt_headers :: "(string \<rightharpoonup> string) option"

definition no_options :: options where
  "no_options = \<lparr>opt_method = None, opt_body = None, opt_headers = None\<rparr>"

definition baseUrl :: string where
  "baseUrl = ''https://v2.api.timechimp.com''"

definition fixed_headers :: "string \<Rightarrow> (string \<rightharpoonup> string)" where
  "fixed_headers apiKey =
     [''api-key'' \<mapsto> apiKey, ''Content-Type'' \<mapsto> ''application/json'',
      ''Accept'' \<mapsto> ''application/json'', ''api-version'' \<mapsto> ''2.0'']"

text \<open>
  The object literal \<^verbatim>\<open>{ 'api-key': ..., ..., ...options.headers }\<close>: the spread comes
  last, so its entries are written over the fixed ones.
\<close>

definition caller_headers :: "options \<Rightarrow> (string \<rightharpoonup> string)" where
  "caller_headers opts = (case opt_headers opts of None \<Rightarrow> Map.empty | Some h \<Rightarrow> h)"

definition request_headers :: "string \<Rightarrow> options \<Rightarrow> (string \<rightharpoonup> string)" where
  "request_headers apiKey opts = fixed_headers apiKey ++ caller_headers opts"

definition build_request :: "string \<Rightarrow> string \<Rightarrow> options \<Rightarrow> request" where
  "build_request apiKey endpoint opts =
     \<lparr>url = baseUrl @ endpoint, http_method = opt_method opts, body = opt_body opts,
      headers = request_headers apiKey opts\<rparr>"

text \<open>
  The inner \<^verbatim>\<open>catch\<close> of \<^verbatim>\<open>makeRequest\<close>: an \<^verbatim>\<open>McpError\<close> passes, anything else
  becomes \<^verbatim>\<open>Request failed\<close>.
\<close>

definition request_catch :: "js_error + 'a \<Rightarrow> js_error + 'a" where
  "request_catch r =
     (case r of
        Inl (McpError c m) \<Rightarrow> Inl (McpError c m)
      | Inl (JsError m) \<Rightarrow> Inl (McpError InternalError (''Request failed: '' @ m))
      | Inr d \<Rightarrow> Inr d)"

text \<open>
  \<^verbatim>\<open>makeRequest(endpoint, options = {})\<close>, lines 46-88. \<^verbatim>\<open>this.apiKey\<close> is an environment
  variable: a string, or absent. The result comes with the list of requests handed to
  \<^verbatim>\<open>fetch\<close>.
\<close>

definition makeRequest ::
  "'d runtime \<Rightarrow> string option \<Rightarrow> string \<Rightarrow> options \<Rightarrow> (js_error + 'd) \<times> request list" where
  "makeRequest rt apiKey endpoint opts =
     (case apiKey of
        None \<Rightarrow>
          (Inl (McpError InvalidRequest ''TIMECHIMP_API_KEY environment variable is required''), [])
      | Some k \<Rightarrow>
          if k = []
          then (Inl (McpError InvalidRequest
                       ''TIMECHIMP_API_KEY environment variable is required''), [])
          else
            (let req = build_request k endpoint opts
             in (request_catch
                   (case fetch rt req of
                      Rejected m \<Rightarrow> Inl (JsError m)
                    | Responded r \<Rightarrow>
                        if \<not> ok r
                        then (case response_text r of
                                Inl e \<Rightarrow> Inl e
                              | Inr errorText \<Rightarrow>
                                  Inl (McpError InternalError
                                         (''TimeChimp API error: '' @ show_nat (status r) @ '' ''
                                          @ statusText r @ '' - '' @ errorText)))
                        else response_json rt r),
                 [req])))"

section \<open>Generic handlers\<close>

text \<open>The value a tool returns: one text item, and the \<^verbatim>\<open>isError\<close> flag.\<close>

record tool_result =
  content_text :: string
  isError :: bool

type_synonym outcome = "(js_error + tool_result) \<times> request list"

text \<open>
  The \<^verbatim>\<open>try\<close>/\<^verbatim>\<open>catch\<close> around every \<^verbatim>\<open>makeRequest\<close> call of a handler: the text of
  the success, or the handler's prefix followed by \<^verbatim>\<open>error.message\<close>.
\<close>

definition respond ::
  "'d runtime \<Rightarrow> ('d \<Rightarrow> string) \<Rightarrow> string \<Rightarrow> (js_error + 'd) \<times> request list \<Rightarrow> outcome" where
  "respond rt success_text error_prefix r =
     (case fst r of
        Inr data \<Rightarrow> (Inr \<lparr>content_text = success_text data, isError = False\<rparr>, snd r)
      | Inl e \<Rightarrow> (Inr \<lparr>content_text = error_prefix @ message rt e, isError = True\<rparr>, snd r))"

text \<open>The suffix \<^verbatim>\<open>${params.toString() ? `?${params.toString()}` : ''}\<close>.\<close>

definition query_suffix :: "params \<Rightarrow> string" where
  "query_suffix ps = (if usp_toString ps \<noteq> [] then ''?'' @ usp_toString ps else [])"

text \<open>
  Lines 2877-2887 of \<^verbatim>\<open>handleGetRequest\<close>: the query parameters of a list request.
  They stand before the \<^verbatim>\<open>try\<close>, so an error of \<^verbatim>\<open>buildQueryParams\<close> leaves the handler.
\<close>

definition handleGetRequest_params :: "args \<Rightarrow> jsval \<Rightarrow> js_error + params" where
  "handleGetRequest_params a defaultOrderBy =
     (case buildQueryParams a of
        Inl e \<Rightarrow> Inl e
      | Inr params \<Rightarrow>
          (let filterExpression = buildFilterExpression a;
               params1 = (if truthy defaultOrderBy \<and> \<not> truthy (a ''orderby'')
                          then usp_append params ''$orderby'' (toStr defaultOrderBy)
                          else params);
               params2 = (if truthy filterExpression
                          then usp_set params1 ''$filter'' (toStr filterExpression)
                          else params1)
           in Inr params2))"

text \<open>\<^verbatim>\<open>handleGetRequest(endpoint, args = {}, defaultOrderBy = null)\<close>, lines 2876-2913.\<close>

definition handleGetRequest ::
  "'d runtime \<Rightarrow> string option \<Rightarrow> string \<Rightarrow> args \<Rightarrow> jsval \<Rightarrow> outcome" where
  "handleGetRequest rt apiKey endpoint a defaultOrderBy =
     (case handleGetRequest_params a defaultOrderBy of
        Inl e \<Rightarrow> (Inl e, [])
      | Inr params \<Rightarrow>
          respond rt (stringify rt) (''Error retrieving data from '' @ endpoint @ '': '')
            (makeRequest rt apiKey (endpoint @ query_suffix params) no_options))"

text \<open>\<^verbatim>\<open>handleGetByIdRequest(endpoint, id, expand = null)\<close>, lines 2918-2946.\<close>

definition handleGetByIdRequest ::
  "'d runtime \<Rightarrow> string option \<Rightarrow> string \<Rightarrow> jsval \<Rightarrow> jsval \<Rightarrow> outcome" where
  "handleGetByIdRequest rt apiKey endpoint ident expand =
     (let params = (if truthy expand then usp_append [] ''$expand'' (toStr expand) else [])
      in respond rt (stringify rt)
           (''Error retrieving data from '' @ endpoint @ ''/'' @ toStr ident @ '': '')
           (makeRequest rt apiKey (endpoint @ ''/'' @ toStr ident @ query_suffix params)
              no_options))"

text \<open>
  The five delete handlers have one body, up to the resource's path and the two words of
  their texts: \<^verbatim>\<open>makeRequest(`/projects/${id}`, {method: 'DELETE'})\<close>, then the
  confirmation, or the error text.
\<close>

definition delete_options :: options where
  "delete_options = \<lparr>opt_method = Some ''DELETE'', opt_body = None, opt_headers = None\<rparr>"

definition deleteResource ::
  "'d runtime \<Rightarrow> string option \<Rightarrow> string \<Rightarrow> string \<Rightarrow> string \<Rightarrow> args \<Rightarrow> outcome" where
  "deleteResource rt apiKey path label what a =
     (let ident = a ''id''
      in respond rt (\<lambda>data. label @ '' '' @ toStr ident @ '' deleted successfully'')
           (''Error deleting '' @ what @ '': '')
           (makeRequest rt apiKey (path @ ''/'' @ toStr ident) delete_options))"

section \<open>The tools\<close>

definition getProjects :: "'d runtime \<Rightarrow> string option \<Rightarrow> args \<Rightarrow> outcome" where
  "getProjects rt apiKey a = handleGetRequest rt apiKey ''/projects'' a JNull"

definition getProjectById :: "'d runtime \<Rightarrow> string option \<Rightarrow> args \<Rightarrow> outcome" where
  "getProjectById rt apiKey a = handleGetByIdRequest rt apiKey ''/projects'' (a ''id'') (a ''expand'')"

definition deleteProject :: "'d runtime \<Rightarrow> string option \<Rightarrow> args \<Rightarrow> outcome" where
  "deleteProject rt apiKey a = deleteResource rt apiKey ''/projects'' ''Project'' ''project'' a"

definition getUsers :: "'d runtime \<Rightarrow> string option \<Rightarrow> args \<Rightarrow> outcome" where
  "getUsers rt apiKey a = handleGetRequest rt apiKey ''/users'' a JNull"

definition getUserById :: "'d runtime \<Rightarrow> string option \<Rightarrow> args \<Rightarrow> outcome" where
  "getUserById rt apiKey a = handleGetByIdRequest rt apiKey ''/users'' (a ''id'') (a ''expand'')"

definition getTimeEntries :: "'d runtime \<Rightarrow> string option \<Rightarrow> args \<Rightarrow> outcome" where
  "getTimeEntries rt apiKey a = handleGetRequest rt apiKey ''/times'' a JNull"

definition getTimeEntryById :: "'d runtime \<Rightarrow> string option \<Rightarrow> args \<Rightarrow> outcome" where
  "getTimeEntryById rt apiKey a = handleGetByIdRequest rt apiKey ''/times'' (a ''id'') (a ''expand'')"

definition getContacts :: "'d runtime \<Rightarrow> string option \<Rightarrow> args \<Rightarrow> outcome" where
  "getContacts rt apiKey a = handleGetRequest rt apiKey ''/contacts'' a JNull"

definition getContactById :: "'d runtime \<Rightarrow> string option \<Rightarrow> args \<Rightarrow> outcome" where
  "getContactById rt apiKey a = handleGetByIdRequest rt apiKey ''/contacts'' (a ''id'') (a ''expand'')"

definition deleteContact :: "'d runtime \<Rightarrow> string option \<Rightarrow> args \<Rightarrow> outcome" where
  "deleteContact rt apiKey a = deleteResource rt apiKey ''/contacts'' ''Contact'' ''contact'' a"

definition getCustomers :: "'d runtime \<Rightarrow> string option \<Rightarrow> args \<Rightarrow> outcome" where
  "getCustomers rt apiKey a = handleGetRequest rt apiKey ''/customers'' a JNull"

definition getCustomerById :: "'d runtime \<Rightarrow> string option \<Rightarrow> args \<Rightarrow> outcome" where
  "getCustomerById rt apiKey a = handleGetByIdRequest rt apiKey ''/customers'' (a ''id'') (a ''expand'')"

definition deleteCustomer :: "'d runtime \<Rightarrow> string option \<Rightarrow> args \<Rightarrow> outcome" where
  "deleteCustomer rt apiKey a = deleteResource rt apiKey ''/customers'' ''Customer'' ''customer'' a"

definition getTasks :: "'d runtime \<Rightarrow> string option \<Rightarrow> args \<Rightarrow> outcome" where
  "getTasks rt apiKey a = handleGetRequest rt apiKey ''/tasks'' a JNull"

definition getTaskById :: "'d runtime \<Rightarrow> string option \<Rightarrow> args \<Rightarrow> outcome" where
  "getTaskById rt apiKey a = handleGetByIdRequest rt apiKey ''/tasks'' (a ''id'') (a ''expand'')"

definition getInvoices :: "'d runtime \<Rightarrow> string option \<Rightarrow> args \<Rightarrow> outcome" where
  "getInvoices rt apiKey a = handleGetRequest rt apiKey ''/invoices'' a JNull"

definition getInvoiceById :: "'d runtime \<Rightarrow> string option \<Rightarrow> args \<Rightarrow> outcome" where
  "getInvoiceById rt apiKey a = handleGetByIdRequest rt apiKey ''/invoices'' (a ''id'') (a ''expand'')"

definition getExpenses :: "'d runtime \<Rightarrow> string option \<Rightarrow> args \<Rightarrow> outcome" where
  "getExpenses rt apiKey a = handleGetRequest rt apiKey ''/expenses'' a JNull"

definition getExpenseById :: "'d runtime \<Rightarrow> string option \<Rightarrow> args \<Rightarrow> outcome" where
  "getExpenseById rt apiKey a = handleGetByIdRequest rt apiKey ''/expenses'' (a ''id'') (a ''expand'')"

definition deleteExpense :: "'d runtime \<Rightarrow> string option \<Rightarrow> args \<Rightarrow> outcome" where
  "deleteExpense rt apiKey a = deleteResource rt apiKey ''/expenses'' ''Expense'' ''expense'' a"

definition getMileage :: "'d runtime \<Rightarrow> string option \<Rightarrow> args \<Rightarrow> outcome" where
  "getMileage rt apiKey a = handleGetRequest rt apiKey ''/mileage'' a JNull"

definition getMileageById :: "'d runtime \<Rightarrow> string option \<Rightarrow> args \<Rightarrow> outcome" where
  "getMileageById rt apiKey a = handleGetByIdRequest rt apiKey ''/mileage'' (a ''id'') (a ''expand'')"

definition deleteMileage :: "'d runtime \<Rightarrow> string option \<Rightarrow> args \<Rightarrow> outcome" where
  "deleteMileage rt apiKey a = deleteResource rt apiKey ''/mileage'' ''Mileage'' ''mileage'' a"

definition getMileageVehicles :: "'d runtime \<Rightarrow> string option \<Rightarrow> args \<Rightarrow> outcome" where
  "getMileageVehicles rt apiKey a = handleGetRequest rt apiKey ''/mileageVehicles'' a JNull"

definition getMileageVehicleById :: "'d runtime \<Rightarrow> string option \<Rightarrow> args \<Rightarrow> outcome" where
  "getMileageVehicleById rt apiKey a =
     handleGetByIdRequest rt apiKey ''/mileageVehicles'' (a ''id'') (a ''expand'')"

definition getTags :: "'d runtime \<Rightarrow> string option \<Rightarrow> args \<Rightarrow> outcome" where
  "getTags rt apiKey a = handleGetRequest rt apiKey ''/tags'' a JNull"

definition getTagById :: "'d runtime \<Rightarrow> string option \<Rightarrow> args \<Rightarrow> outcome" where
  "getTagById rt apiKey a = handleGetByIdRequest rt apiKey ''/tags'' (a ''id'') (a ''expand'')"

section \<open>Operation Dispatcher\<close>

text \<open>
  The static catalog: the names of the tools that the \<^verbatim>\<open>ListToolsRequestSchema\<close>
  handler announces, in its order.
\<close>

definition tool_catalog :: "string list" where
  "tool_catalog =
     [''get_projects'', ''get_project_by_id'', ''create_project'', ''update_project'',
      ''delete_project'', ''get_project_insights'', ''get_users'', ''get_user_by_id'',
      ''create_user'', ''update_user'', ''get_time_entries'', ''get_time_entry_by_id'',
      ''get_contacts'', ''get_contact_by_id'', ''create_contact'', ''update_contact'',
      ''delete_contact'', ''get_customers'', ''get_customer_by_id'', ''create_customer'',
      ''update_customer'', ''delete_customer'', ''get_tasks'', ''get_task_by_id'',
      ''get_invoices'', ''get_invoice_by_id'', ''get_expenses'', ''get_expense_by_id'',
      ''create_expense'', ''update_expense'', ''delete_expense'', ''update_expense_status'',
      ''update_expense_client_status'', ''get_expense_status_history'', ''get_mileage'',
      ''get_mileage_by_id'', ''create_mileage'', ''update_mileage'', ''delete_mileage'',
      ''update_mileage_status'', ''update_mileage_client_status'',
      ''get_mileage_status_history'', ''get_mileage_vehicles'', ''get_mileage_vehicle_by_id'',
      ''get_tags'', ''get_tag_by_id'']"

text \<open>
  The \<^verbatim>\<open>switch (name)\<close> of the \<^verbatim>\<open>CallToolRequestSchema\<close> handler, lines 2669-2787, in
  the order of its \<^verbatim>\<open>case\<close> labels. The create, update, bulk status, status history and
  insights handlers are not modelled: \<open>others\<close> stands for them.
\<close>

definition toolSwitch ::
  "'d runtime \<Rightarrow> (string \<Rightarrow> args \<Rightarrow> outcome) \<Rightarrow> string option \<Rightarrow> string \<Rightarrow> args \<Rightarrow> outcome" where
  "toolSwitch rt others apiKey name a =
     (
      if name = ''get_projects'' then getProjects rt apiKey a
      else if name = ''get_project_by_id'' then getProjectById rt apiKey a
      else if name = ''create_project'' then others name a
      else if name = ''update_project'' then others name a
      else if name = ''delete_project'' then deleteProject rt apiKey a
      else if name = ''get_project_insights'' then others name a
      else if name = ''get_users'' then getUsers rt apiKey a
      else if name = ''get_user_by_id'' then getUserById rt apiKey a
      else if name = ''create_user'' then others name a
      else if name = ''update_user'' then others name a
      else if name = ''get_time_entries'' then getTimeEntries rt apiKey a
      else if name = ''get_time_entry_by_id'' then getTimeEntryById rt apiKey a
      else if name = ''get_contacts'' then getContacts rt apiKey a
      else if name = ''get_contact_by_id'' then getContactById rt apiKey a
      else if name = ''create_contact'' then others name a
      else if name = ''update_contact'' then others name a
      else if name = ''delete_contact'' then deleteContact rt apiKey a
      else if name = ''get_customers'' then getCustomers rt apiKey a
      else if name = ''get_customer_by_id'' then getCustomerById rt apiKey a
      else if name = ''create_customer'' then others name a
      else if name = ''update_customer'' then others name a
      else if name = ''delete_customer'' then deleteCustomer rt apiKey a
      else if name = ''get_tasks'' then getTasks rt apiKey a
      else if name = ''get_task_by_id'' then getTaskById rt apiKey a
      else if name = ''get_invoices'' then getInvoices rt apiKey a
      else if name = ''get_invoice_by_id'' then getInvoiceById rt apiKey a
      else if name = ''get_expenses'' then getExpenses rt apiKey a
      else if name = ''get_expense_by_id'' then getExpenseById rt apiKey a
      else if name = ''create_expense'' then others name a
      else if name = ''update_expense'' then others name a
      else if name = ''delete_expense'' then deleteExpense rt apiKey a
      else if name = ''update_expense_status'' then others name a
      else if name = ''update_expense_client_status'' then others name a
      else if name = ''get_expense_status_history'' then others name a
      else if name = ''get_mileage'' then getMileage rt apiKey a
      else if name = ''get_mileage_by_id'' then getMileageById rt apiKey a
      else if name = ''create_mileage'' then others name a
      else if name = ''update_mileage'' then others name a
      else if name = ''delete_mileage'' then deleteMileage rt apiKey a
      else if name = ''update_mileage_status'' then others name a
      else if name = ''update_mileage_client_status'' then others name a
      else if name = ''get_mileage_status_history'' then others name a
      else if name = ''get_mileage_vehicles'' then getMileageVehicles rt apiKey a
      else if name = ''get_mileage_vehicle_by_id'' then getMileageVehicleById rt apiKey a
      else if name = ''get_tags'' then getTags rt apiKey a
      else if name = ''get_tag_by_id'' then getTagById rt apiKey a
      else (Inl (McpError MethodNotFound (''Unknown tool: '' @ name)), []))"

text \<open>
  The handler itself, lines 2665-2797: the \<^verbatim>\<open>catch\<close> throws an \<^verbatim>\<open>McpError\<close> again and
  wraps any other error. What it throws goes to the SDK, which answers the client with a
  JSON-RPC error of that code and message.
\<close>

definition callToolHandler ::
  "'d runtime \<Rightarrow> (string \<Rightarrow> args \<Rightarrow> outcome) \<Rightarrow> string option \<Rightarrow> string \<Rightarrow> args \<Rightarrow> outcome" where
  "callToolHandler rt others apiKey name a =
     (let r = toolSwitch rt others apiKey name a
      in case fst r of
           Inl (McpError c m) \<Rightarrow> (Inl (McpError c m), snd r)
         | Inl (JsError m) \<Rightarrow>
             (Inl (McpError InternalError (''Tool execution failed: '' @ m)), snd r)
         | Inr res \<Rightarrow> (Inr res, snd r))"

subsection \<open>The kinds of operation of the specification\<close>

text \<open>The list operations and the get-by-id operations, each with its resource path.\<close>

definition list_operations :: "(string \<times> string) list" where
  "list_operations =
     [(''get_projects'', ''/projects''), (''get_users'', ''/users''),
      (''get_time_entries'', ''/times''), (''get_contacts'', ''/contacts''),
      (''get_customers'', ''/customers''), (''get_tasks'', ''/tasks''),
      (''get_invoices'', ''/invoices''), (''get_expenses'', ''/expenses''),
      (''get_mileage'', ''/mileage''), (''get_mileage_vehicles'', ''/mileageVehicles''),
      (''get_tags'', ''/tags'')]"

definition get_by_id_operations :: "(string \<times> string) list" where
  "get_by_id_operations =
     [(''get_project_by_id'', ''/projects''), (''get_user_by_id'', ''/users''),
      (''get_time_entry_by_id'', ''/times''), (''get_contact_by_id'', ''/contacts''),
      (''get_customer_by_id'', ''/customers''), (''get_task_by_id'', ''/tasks''),
      (''get_invoice_by_id'', ''/invoices''), (''get_expense_by_id'', ''/expenses''),
      (''get_mileage_by_id'', ''/mileage''),
      (''get_mileage_vehicle_by_id'', ''/mileageVehicles''), (''get_tag_by_id'', ''/tags'')]"

text \<open>The delete operations, each with its resource path and the label of its confirmation.\<close>

definition delete_operations :: "(string \<times> string \<times> string) list" where
  "delete_operations =
     [(''delete_project'', ''/projects'', ''Project''),
      (''delete_contact'', ''/contacts'', ''Contact''),
      (''delete_customer'', ''/customers'', ''Customer''),
      (''delete_expense'', ''/expenses'', ''Expense''),
      (''delete_mileage'', ''/mileage'', ''Mileage'')]"

section \<open>A sample platform\<close>

text \<open>
  A concrete platform on which the theorems below are instantiated. Parsed data is kept as
  its text; the empty text does not parse. The remote service knows project 42, accepts
  the deletion of project 7 with an empty body, cannot be reached for \<^verbatim>\<open>/tags\<close>,
  answers 500 to \<^verbatim>\<open>/expenses\<close> with a body whose reading fails, and answers 404 to
  everything else. \<^verbatim>\<open>McpError\<close> messages are formed as the SDK does.
\<close>

definition sample_parse :: "string \<Rightarrow> string + string" where
  "sample_parse s = (if s = [] then Inl ''Unexpected end of JSON input'' else Inr s)"

definition sample_fetch :: "request \<Rightarrow> fetch_outcome" where
  "sample_fetch req =
     (if url req = baseUrl @ ''/projects/42''
      then Responded \<lparr>status = 200, statusText = ''OK'', body_text = Inr ''{}''\<rparr>
      else if url req = baseUrl @ ''/projects/7'' \<and> http_method req = Some ''DELETE''
      then Responded \<lparr>status = 204, statusText = ''No Content'', body_text = Inr []\<rparr>
      else if url req = baseUrl @ ''/tags''
      then Rejected ''fetch failed''
      else if url req = baseUrl @ ''/expenses''
      then Responded \<lparr>status = 500, statusText = ''Internal Server Error'',
                       body_text = Inl ''terminated''\<rparr>
      else Responded \<lparr>status = 404, statusText = ''Not Found'', body_text = Inr ''no such item''\<rparr>)"

definition error_number :: "error_code \<Rightarrow> int" where
  "error_number c =
     (case c of InvalidRequest \<Rightarrow> - 32600 | MethodNotFound \<Rightarrow> - 32601 | InternalError \<Rightarrow> - 32603)"

definition sample_runtime :: "string runtime" where
  "sample_runtime =
     \<lparr>fetch = sample_fetch, parseJSON = sample_parse, stringify = (\<lambda>d. d),
      mcpMessage = (\<lambda>c m. ''MCP error '' @ show_int (error_number c) @ '': '' @ m)\<rparr>"

definition no_others :: "string \<Rightarrow> args \<Rightarrow> outcome" where
  "no_others name a = (Inl (JsError ''not modelled''), [])"

section \<open>Sample inputs and auxiliary notions\<close>

text \<open>The argument bag of the time-entries scenario of the specification.\<close>

definition scenario_args :: args where
  "scenario_args =
     no_args(''user_id'' := JStr ''7'', ''from_date'' := JStr ''2024-01-01'',
             ''to_date'' := JStr ''2024-01-31'')"

text \<open>
  The invariant of the accumulator of \<^verbatim>\<open>buildFilterExpression\<close>: it renders as the join
  of the fragments met so far, and it is truthy exactly when there is one.
\<close>

definition composed :: "jsval \<Rightarrow> string list \<Rightarrow> bool" where
  "composed fe fs = (toStr fe = join_and fs \<and> truthy fe = (fs \<noteq> []))"

text \<open>Options whose caller-supplied headers name the credential header.\<close>

definition override_options :: options where
  "override_options = no_options\<lparr>opt_headers := Some [''api-key'' \<mapsto> ''other-key'']\<rparr>"

text \<open>The value each request of a list carries under a header name.\<close>

definition sent_header :: "string \<Rightarrow> request list \<Rightarrow> string option list" where
  "sent_header name reqs = map (\<lambda>req. headers req name) reqs"


text \<open>The message of the \<^verbatim>\<open>TypeError\<close> of \<^verbatim>\<open>null.toString()\<close>.\<close>

definition type_error_null :: string where
  "type_error_null =
     ''Cannot read properties of null (reading '' @ quote @ ''toString'' @ quote @ '')''"

text \<open>An argument bag whose \<^verbatim>\<open>count\<close> is \<^verbatim>\<open>null\<close>.\<close>

definition count_null_args :: args where
  "count_null_args = no_args(''count'' := JNull)"


text \<open>The argument bag of the delete scenario of the specification.\<close>

definition delete_42 :: args where
  "delete_42 = no_args(''id'' := JNum 42)"

text \<open>A delete that the sample service accepts with an empty body.\<close>

definition delete_7 :: args where
  "delete_7 = no_args(''id'' := JNum 7)"

section \<open>Properties of the Filter Composer\<close>

lemma join_and_length:
  "length (join_and fs) = sum_list (map length fs) + 5 * (length fs - 1)"
  by (induction fs rule: join_and.induct) auto

lemma join_and_snoc:
  "join_and (fs @ [x]) = (if fs = [] then x else join_and fs @ '' and '' @ x)"
  by (induction fs rule: join_and.induct) auto

lemma show_nat_nonempty: "show_nat n \<noteq> []"
  by (subst show_nat.simps) simp

lemma truthy_toStr: "truthy v \<Longrightarrow> toStr v \<noteq> []"
  by (cases v) (auto simp: show_int_def show_nat_nonempty)

lemma toStr_empty: "toStr v = [] \<Longrightarrow> v = JStr []"
  by (cases v) (auto simp: show_int_def show_nat_nonempty split: if_splits)

lemma composed_active:
  "composed (if t then JStr ''active eq true'' else JStr [])
            (if t then [''active eq true''] else [])"
  by (simp add: composed_def)

lemma composed_step:
  "composed fe fs \<Longrightarrow> x \<noteq> [] \<Longrightarrow>
   composed (if t then and_with fe x else fe) (fs @ (if t then [x] else []))"
  by (auto simp: composed_def and_with_def join_and_snoc)

lemma composed_raw:
  "composed fe fs \<Longrightarrow>
   composed (if truthy v
             then (if truthy fe then JStr (toStr fe @ '' and '' @ toStr v) else v) else fe)
            (fs @ (if truthy v then [toStr v] else []))"
  by (auto simp: composed_def join_and_snoc truthy_toStr)

lemma present_fragments_unfold:
  "present_fragments a =
    ((((((if truthy (a ''active_only'') then [''active eq true''] else [])
     @ (if truthy (a ''user_id'') then [''user/id eq '' @ toStr (a ''user_id'')] else []))
     @ (if truthy (a ''project_id'')
        then [''project/id eq '' @ toStr (a ''project_id'')] else []))
     @ (if truthy (a ''customer_id'')
        then [''customer/id eq '' @ toStr (a ''customer_id'')] else []))
     @ (if truthy (a ''from_date'') then [''date ge '' @ toStr (a ''from_date'')] else []))
     @ (if truthy (a ''to_date'') then [''date le '' @ toStr (a ''to_date'')] else []))
     @ (if truthy (a ''filter'') then [toStr (a ''filter'')] else [])"
  by (simp add: present_fragments_def filter_sources_def cong: if_cong split del: if_split)

lemma buildFilterExpression_composed:
  "composed (buildFilterExpression a) (present_fragments a)"
  unfolding buildFilterExpression_def Let_def present_fragments_unfold
  by (intro composed_raw composed_step composed_active) simp_all

lemma concat_if_length:
  "length (concat (map (\<lambda>p. if P p then [g p] else []) xs)) = length (filter P xs)"
  by (induction xs) auto

lemma present_fragments_length: "length (present_fragments a) = present_count a"
  unfolding present_fragments_def present_count_def by (rule concat_if_length)

lemma present_count_no_args: "present_count no_args = 0"
  by (simp add: present_count_def filter_sources_def no_args_def)

lemma present_count_scenario: "present_count scenario_args = 3"
  by (simp add: present_count_def filter_sources_def no_args_def scenario_args_def)

lemma present_fragments_scenario:
  "present_fragments scenario_args =
     [''user/id eq 7'', ''date ge 2024-01-01'', ''date le 2024-01-31'']"
  by (simp add: present_fragments_def filter_sources_def no_args_def scenario_args_def)

text \<open>
  Claim C1. Whatever the argument bag, the composed filter is the empty string when
  none of the seven sources is truthy; otherwise it renders as the fragments of the
  truthy sources, each once and in the fixed order active flag, user, project, customer,
  from-date, to-date, raw filter, with one connective \<^verbatim>\<open> and \<close> between two neighbours:
  \<open>N - 1\<close> connectives of five characters for \<open>N\<close> fragments.
\<close>

theorem buildFilterExpression_composes:
  "toStr (buildFilterExpression a) = join_and (present_fragments a)
   \<and> length (present_fragments a) = present_count a
   \<and> (present_count a = 0 \<longrightarrow> buildFilterExpression a = JStr [])
   \<and> length (toStr (buildFilterExpression a))
       = sum_list (map length (present_fragments a)) + 5 * (present_count a - 1)"
proof -
  have j: "toStr (buildFilterExpression a) = join_and (present_fragments a)"
    using buildFilterExpression_composed [of a] by (simp add: composed_def)
  have n: "length (present_fragments a) = present_count a"
    by (rule present_fragments_length)
  have z: "buildFilterExpression a = JStr []" if "present_count a = 0"
  proof -
    from that n have "present_fragments a = []" by simp
    with j have "toStr (buildFilterExpression a) = []" by simp
    then show ?thesis by (rule toStr_empty)
  qed
  have l: "length (toStr (buildFilterExpression a))
       = sum_list (map length (present_fragments a)) + 5 * (present_count a - 1)"
    unfolding j join_and_length n ..
  from j n z l show ?thesis by blast
qed

theorem buildFilterExpression_composes_witness:
  "present_count no_args = 0 \<and> buildFilterExpression no_args = JStr []
   \<and> present_count scenario_args = 3
   \<and> toStr (buildFilterExpression scenario_args)
       = ''user/id eq 7 and date ge 2024-01-01 and date le 2024-01-31''"
  using buildFilterExpression_composes [of no_args]
    buildFilterExpression_composes [of scenario_args]
  by (simp add: present_count_no_args present_count_scenario present_fragments_scenario)

section \<open>Properties of the Authenticated Request Executor\<close>

lemma makeRequest_requests:
  "k \<noteq> [] \<Longrightarrow> snd (makeRequest rt (Some k) ep opts) = [build_request k ep opts]"
  by (simp add: makeRequest_def Let_def)

lemma show_nat_404: "show_nat 404 = ''404''"
  by (simp add: show_nat.simps [of 404] show_nat.simps [of 40] show_nat.simps [of 4]
      digit_char_def)

lemma sample_fetch_users:
  "fetch sample_runtime (build_request ''secret'' ''/users/9'' no_options)
     = Responded \<lparr>status = 404, statusText = ''Not Found'', body_text = Inr ''no such item''\<rparr>"
  by (simp add: sample_runtime_def sample_fetch_def build_request_def baseUrl_def)

lemma sample_fetch_delete7:
  "fetch sample_runtime (build_request ''secret'' ''/projects/7'' delete_options)
     = Responded \<lparr>status = 204, statusText = ''No Content'', body_text = Inr []\<rparr>"
  by (simp add: sample_runtime_def sample_fetch_def build_request_def baseUrl_def
      delete_options_def)

lemma sample_parse_empty:
  "parseJSON sample_runtime [] = Inl ''Unexpected end of JSON input''"
  by (simp add: sample_runtime_def sample_parse_def)

text \<open>
  Claim C2, as stated, fails: the caller-supplied headers are spread after the fixed
  ones, so a caller-supplied \<^verbatim>\<open>api-key\<close> is the one that is sent.
\<close>

theorem makeRequest_headers_override_counterexample:
  "sent_header ''api-key''
     (snd (makeRequest sample_runtime (Some ''secret'') ''/projects'' override_options))
     = [Some ''other-key'']"
  by (simp add: makeRequest_requests sent_header_def build_request_def request_headers_def
      caller_headers_def override_options_def no_options_def)

text \<open>
  Claim C2, amended. With a credential configured, the one request that is sent carries,
  under every header name, the caller-supplied value when the caller supplies one and the
  fixed value otherwise: the credential and version headers have their configured values
  whenever the caller's set has no entry of that name, and the caller's entries are added
  to, or written over, the fixed ones.
\<close>

theorem makeRequest_headers:
  "k \<noteq> [] \<Longrightarrow>
   sent_header name (snd (makeRequest rt (Some k) ep opts))
     = [case caller_headers opts name of Some v \<Rightarrow> Some v | None \<Rightarrow> fixed_headers k name]"
  by (simp add: makeRequest_requests sent_header_def build_request_def request_headers_def
      map_add_def)

theorem makeRequest_headers_witness:
  "sent_header ''api-key''
     (snd (makeRequest sample_runtime (Some ''secret'') ''/projects'' delete_options))
     = [Some ''secret'']
   \<and> sent_header ''api-version''
       (snd (makeRequest sample_runtime (Some ''secret'') ''/projects'' override_options))
       = [Some ''2.0'']"
  using makeRequest_headers
      [of "''secret''" "''api-key''" sample_runtime "''/projects''" delete_options]
    makeRequest_headers
      [of "''secret''" "''api-version''" sample_runtime "''/projects''" override_options]
  by (simp add: caller_headers_def delete_options_def override_options_def no_options_def
      fixed_headers_def)

text \<open>
  Claim C7. Whatever the endpoint and the options (verb, body, headers), without a
  configured credential (the environment variable absent or empty) \<^verbatim>\<open>makeRequest\<close>
  throws the \<^verbatim>\<open>InvalidRequest\<close> error and hands no request to \<^verbatim>\<open>fetch\<close>.
\<close>

theorem makeRequest_no_credential:
  "apiKey = None \<or> apiKey = Some [] \<Longrightarrow>
   makeRequest rt apiKey endpoint opts =
     (Inl (McpError InvalidRequest ''TIMECHIMP_API_KEY environment variable is required''), [])"
  by (auto simp: makeRequest_def)

theorem makeRequest_no_credential_witness:
  "makeRequest sample_runtime None ''/projects/42'' delete_options =
     (Inl (McpError InvalidRequest ''TIMECHIMP_API_KEY environment variable is required''), [])"
  using makeRequest_no_credential [of None sample_runtime "''/projects/42''" delete_options]
  by simp

lemma sample_fetch_expenses:
  "fetch sample_runtime (build_request ''secret'' ''/expenses'' no_options)
     = Responded \<lparr>status = 500, statusText = ''Internal Server Error'',
                   body_text = Inl ''terminated''\<rparr>"
  by (simp add: sample_runtime_def sample_fetch_def build_request_def baseUrl_def)

text \<open>
  Claim C8, as stated, fails: \<^verbatim>\<open>response.text()\<close> is awaited inside the \<^verbatim>\<open>try\<close>, so when
  reading the body of a 500 response fails, the error thrown is \<^verbatim>\<open>Request failed\<close> with
  the message of that failure, and neither the status code nor the status text.
\<close>

theorem makeRequest_upstream_error_counterexample:
  "makeRequest sample_runtime (Some ''secret'') ''/expenses'' no_options =
     (Inl (McpError InternalError ''Request failed: terminated''),
      [build_request ''secret'' ''/expenses'' no_options])"
  by (simp add: makeRequest_def Let_def sample_fetch_expenses ok_def response_text_def
      request_catch_def)

text \<open>
  Claim C8, amended. When the response has a status outside 200-299, \<^verbatim>\<open>makeRequest\<close>
  throws an \<^verbatim>\<open>InternalError\<close> error: if the body is read as text, its message holds the
  status code, the status text and the body text; if reading the body fails, it is
  \<^verbatim>\<open>Request failed\<close> with the message of that failure.
\<close>

theorem makeRequest_upstream_error:
  "k \<noteq> [] \<Longrightarrow> fetch rt (build_request k endpoint opts) = Responded r \<Longrightarrow> \<not> ok r \<Longrightarrow>
   makeRequest rt (Some k) endpoint opts =
     (Inl (McpError InternalError
             (case body_text r of
                Inr errorText \<Rightarrow>
                  ''TimeChimp API error: '' @ show_nat (status r) @ '' '' @ statusText r
                  @ '' - '' @ errorText
              | Inl m \<Rightarrow> ''Request failed: '' @ m)),
      [build_request k endpoint opts])"
  by (simp add: makeRequest_def Let_def response_text_def request_catch_def split: sum.splits)

theorem makeRequest_upstream_error_witness:
  "makeRequest sample_runtime (Some ''secret'') ''/users/9'' no_options =
     (Inl (McpError InternalError ''TimeChimp API error: 404 Not Found - no such item''),
      [build_request ''secret'' ''/users/9'' no_options])"
  using makeRequest_upstream_error
      [of "''secret''" sample_runtime "''/users/9''" no_options
        "\<lparr>status = 404, statusText = ''Not Found'', body_text = Inr ''no such item''\<rparr>"]
  by (simp add: sample_fetch_users ok_def show_nat_404)

text \<open>
  Claim C10. When the response has a success status and \<^verbatim>\<open>response.json()\<close> fails (the
  body does not parse as JSON, the empty body included), \<^verbatim>\<open>makeRequest\<close> does not
  return: it throws the \<^verbatim>\<open>InternalError\<close> error \<^verbatim>\<open>Request failed\<close> with the message of
  that failure, exactly what it throws when \<^verbatim>\<open>fetch\<close> itself fails with that message,
  and the handler that called it returns an error result.
\<close>

theorem makeRequest_unparsable_body:
  "k \<noteq> [] \<Longrightarrow> fetch rt (build_request k endpoint opts) = Responded r \<Longrightarrow> ok r \<Longrightarrow>
   response_json rt r = Inl (JsError m) \<Longrightarrow>
   makeRequest rt (Some k) endpoint opts =
     (Inl (McpError InternalError (''Request failed: '' @ m)), [build_request k endpoint opts])
   \<and> makeRequest (rt\<lparr>fetch := \<lambda>req. Rejected m\<rparr>) (Some k) endpoint opts =
       makeRequest rt (Some k) endpoint opts
   \<and> respond rt success_text error_prefix (makeRequest rt (Some k) endpoint opts) =
       (Inr \<lparr>content_text =
               error_prefix @ mcpMessage rt InternalError (''Request failed: '' @ m),
             isError = True\<rparr>,
        [build_request k endpoint opts])"
  by (simp add: makeRequest_def Let_def request_catch_def respond_def message_def)

lemma sample_json_empty:
  "response_json sample_runtime
     \<lparr>status = 204, statusText = ''No Content'', body_text = Inr []\<rparr>
   = Inl (JsError ''Unexpected end of JSON input'')"
  by (simp add: response_json_def sample_parse_empty)

theorem makeRequest_unparsable_body_witness:
  "makeRequest sample_runtime (Some ''secret'') ''/projects/7'' delete_options =
     (Inl (McpError InternalError ''Request failed: Unexpected end of JSON input''),
      [build_request ''secret'' ''/projects/7'' delete_options])"
  using makeRequest_unparsable_body
      [of "''secret''" sample_runtime "''/projects/7''" delete_options
        "\<lparr>status = 204, statusText = ''No Content'', body_text = Inr []\<rparr>"
        "''Unexpected end of JSON input''"]
  by (simp add: sample_fetch_delete7 ok_def sample_json_empty)

section \<open>Properties of the Query Parameter Builder\<close>

lemma if_snoc: "(if c then usp_append p k v else p) = p @ (if c then [(k, v)] else [])"
  by (simp add: usp_append_def)

lemma buildQueryParams_eq:
  "buildQueryParams a =
     (if a ''count'' = JNull then Inl (JsError type_error_null)
      else Inr ((if truthy (a ''top'') then [(''$top'', toStr (a ''top''))] else [])
             @ (if truthy (a ''skip'') then [(''$skip'', toStr (a ''skip''))] else [])
             @ (if a ''count'' \<noteq> JUndefined then [(''$count'', toStr (a ''count''))] else [])
             @ (if truthy (a ''expand'') then [(''$expand'', toStr (a ''expand''))] else [])
             @ (if truthy (a ''orderby'') then [(''$orderby'', toStr (a ''orderby''))] else [])
             @ (if truthy (a ''filter'') then [(''$filter'', toStr (a ''filter''))] else [])))"
proof (cases "a ''count'' = JNull")
  case True
  then show ?thesis
    by (simp add: buildQueryParams_def Let_def js_toString_def type_error_null_def)
next
  case False
  show ?thesis
  proof (cases "a ''count'' = JUndefined")
    case True
    then show ?thesis
      by (simp add: buildQueryParams_def Let_def if_snoc split del: if_split)
  next
    case u: False
    with False show ?thesis
      by (simp add: buildQueryParams_def Let_def js_toString_def if_snoc usp_append_def
          split del: if_split)
  qed
qed

lemma usp_getAll_append: "usp_getAll (xs @ ys) k = usp_getAll xs k @ usp_getAll ys k"
  by (simp add: usp_getAll_def)

lemma usp_getAll_if:
  "usp_getAll (if c then [(k', v)] else []) k = (if c \<and> k' = k then [v] else [])"
  by (simp add: usp_getAll_def)




lemma buildQueryParams_Inr:
  assumes "buildQueryParams a = Inr ps"
  shows "a ''count'' \<noteq> JNull"
    and "ps = (if truthy (a ''top'') then [(''$top'', toStr (a ''top''))] else [])
             @ (if truthy (a ''skip'') then [(''$skip'', toStr (a ''skip''))] else [])
             @ (if a ''count'' \<noteq> JUndefined then [(''$count'', toStr (a ''count''))] else [])
             @ (if truthy (a ''expand'') then [(''$expand'', toStr (a ''expand''))] else [])
             @ (if truthy (a ''orderby'') then [(''$orderby'', toStr (a ''orderby''))] else [])
             @ (if truthy (a ''filter'') then [(''$filter'', toStr (a ''filter''))] else [])"
proof -
  show c: "a ''count'' \<noteq> JNull"
    using assms by (cases "a ''count'' = JNull") (simp_all add: buildQueryParams_eq)
  show "ps = (if truthy (a ''top'') then [(''$top'', toStr (a ''top''))] else [])
             @ (if truthy (a ''skip'') then [(''$skip'', toStr (a ''skip''))] else [])
             @ (if a ''count'' \<noteq> JUndefined then [(''$count'', toStr (a ''count''))] else [])
             @ (if truthy (a ''expand'') then [(''$expand'', toStr (a ''expand''))] else [])
             @ (if truthy (a ''orderby'') then [(''$orderby'', toStr (a ''orderby''))] else [])
             @ (if truthy (a ''filter'') then [(''$filter'', toStr (a ''filter''))] else [])"
    using assms c by (simp add: buildQueryParams_eq split del: if_split)
qed

lemma buildQueryParams_getAll:
  assumes "buildQueryParams a = Inr ps"
  shows "usp_getAll ps ''$skip'' = (if truthy (a ''skip'') then [toStr (a ''skip'')] else [])"
    and "usp_getAll ps ''$count'' = (if a ''count'' = JUndefined then [] else [toStr (a ''count'')])"
    and "usp_getAll ps ''$orderby'' = (if truthy (a ''orderby'') then [toStr (a ''orderby'')] else [])"
    and "usp_getAll ps ''$filter'' = (if truthy (a ''filter'') then [toStr (a ''filter'')] else [])"
    and "usp_getAll ps ''$top'' = (if truthy (a ''top'') then [toStr (a ''top'')] else [])"
    and "usp_getAll ps ''$expand'' = (if truthy (a ''expand'') then [toStr (a ''expand'')] else [])"
  unfolding buildQueryParams_Inr(2) [OF assms]
  by (simp_all add: usp_getAll_append usp_getAll_if)



lemma buildQueryParams_skip_count:
  "a ''count'' \<noteq> JNull \<Longrightarrow>
   \<exists>ps. buildQueryParams a = Inr ps
      \<and> usp_getAll ps ''$skip'' = (if truthy (a ''skip'') then [toStr (a ''skip'')] else [])
      \<and> usp_getAll ps ''$count''
           = (if a ''count'' = JUndefined then [] else [toStr (a ''count'')])"
proof -
  assume "a ''count'' \<noteq> JNull"
  then obtain ps where p: "buildQueryParams a = Inr ps"
    by (simp add: buildQueryParams_eq)
  show ?thesis using buildQueryParams_getAll(1,2) [OF p] p by blast
qed

lemma buildQueryParams_examples:
  "buildQueryParams (no_args(''skip'' := JNum 0)) = Inr []"
  "buildQueryParams (no_args(''skip'' := JNum 5)) = Inr [(''$skip'', ''5'')]"
  "buildQueryParams (no_args(''count'' := JBool False)) = Inr [(''$count'', ''false'')]"
  by (simp_all add: buildQueryParams_eq no_args_def show_int_def show_nat.simps [of 5]
      digit_char_def)

section \<open>Properties of the Operation Dispatcher\<close>

lemma makeRequest_status_error:
  "k \<noteq> [] \<Longrightarrow> fetch rt (build_request k endpoint opts) = Responded r \<Longrightarrow> \<not> ok r \<Longrightarrow>
   body_text r = Inr errorText \<Longrightarrow>
   makeRequest rt (Some k) endpoint opts =
     (Inl (McpError InternalError
             (''TimeChimp API error: '' @ show_nat (status r) @ '' '' @ statusText r @ '' - ''
              @ errorText)),
      [build_request k endpoint opts])"
  by (simp add: makeRequest_def Let_def response_text_def request_catch_def)

lemma respond_requests: "snd (respond rt f p r) = snd r"
  by (simp add: respond_def split: sum.splits)

lemma respond_Inr: "\<exists>res. fst (respond rt f p r) = Inr res"
  by (simp add: respond_def split: sum.splits)

text \<open>
  Claim C6. The claim holds but for its last clause: \<^verbatim>\<open>count: null\<close> passes the test
  \<^verbatim>\<open>count !== undefined\<close>, and \<^verbatim>\<open>count.toString()\<close> then throws a \<^verbatim>\<open>TypeError\<close>;
  the list tool ends in an \<^verbatim>\<open>InternalError\<close> without any request. (For every other
  \<^verbatim>\<open>count\<close>, \<open>buildQueryParams_skip_count\<close> gives the behaviour the claim states.)
\<close>

theorem buildQueryParams_count_null:
  "buildQueryParams count_null_args = Inl (JsError type_error_null)
   \<and> callToolHandler sample_runtime no_others (Some ''secret'') ''get_projects'' count_null_args
       = (Inl (McpError InternalError (''Tool execution failed: '' @ type_error_null)), [])"
  by (simp add: buildQueryParams_eq count_null_args_def callToolHandler_def toolSwitch_def
      getProjects_def handleGetRequest_def handleGetRequest_params_def)








text \<open>
  Claim C3, as stated, fails: for a name outside the catalog the handler returns no
  result at all. The \<^verbatim>\<open>default\<close> case throws, and the \<^verbatim>\<open>catch\<close> throws the error again,
  out of the handler.
\<close>

theorem callToolHandler_unknown_counterexample:
  "fst (callToolHandler sample_runtime no_others (Some ''secret'') ''get_everything'' no_args)
     = Inl (McpError MethodNotFound ''Unknown tool: get_everything'')"
  by (simp add: callToolHandler_def toolSwitch_def)

text \<open>
  Claim C3, amended. For a name outside the catalog, whatever the arguments, the handler
  makes no request and returns no result: it throws the \<^verbatim>\<open>MethodNotFound\<close> error
  \<^verbatim>\<open>Unknown tool\<close> followed by the name, an \<^verbatim>\<open>McpError\<close> that the catch passes on to
  the SDK as it is.
\<close>

theorem callToolHandler_unknown:
  "name \<notin> set tool_catalog \<Longrightarrow>
   callToolHandler rt others apiKey name a =
     (Inl (McpError MethodNotFound (''Unknown tool: '' @ name)), [])"
  by (simp add: callToolHandler_def toolSwitch_def tool_catalog_def)

theorem callToolHandler_unknown_witness:
  "callToolHandler sample_runtime no_others (Some ''secret'') ''drop_everything'' scenario_args =
     (Inl (McpError MethodNotFound ''Unknown tool: drop_everything''), [])"
  using callToolHandler_unknown [of "''drop_everything''" sample_runtime no_others "Some ''secret''" scenario_args]
  by (simp add: tool_catalog_def)

lemma callToolHandler_typed:
  "fst (callToolHandler rt others apiKey name a) \<noteq> Inl (JsError m)"
  by (simp add: callToolHandler_def Let_def split: sum.splits js_error.splits)

lemma toolSwitch_get_by_id_cases:
  "toolSwitch rt others apiKey ''get_project_by_id'' a = getProjectById rt apiKey a"
  "toolSwitch rt others apiKey ''get_user_by_id'' a = getUserById rt apiKey a"
  "toolSwitch rt others apiKey ''get_time_entry_by_id'' a = getTimeEntryById rt apiKey a"
  "toolSwitch rt others apiKey ''get_contact_by_id'' a = getContactById rt apiKey a"
  "toolSwitch rt others apiKey ''get_customer_by_id'' a = getCustomerById rt apiKey a"
  "toolSwitch rt others apiKey ''get_task_by_id'' a = getTaskById rt apiKey a"
  "toolSwitch rt others apiKey ''get_invoice_by_id'' a = getInvoiceById rt apiKey a"
  "toolSwitch rt others apiKey ''get_expense_by_id'' a = getExpenseById rt apiKey a"
  "toolSwitch rt others apiKey ''get_mileage_by_id'' a = getMileageById rt apiKey a"
  "toolSwitch rt others apiKey ''get_mileage_vehicle_by_id'' a = getMileageVehicleById rt apiKey a"
  "toolSwitch rt others apiKey ''get_tag_by_id'' a = getTagById rt apiKey a"
  by (simp_all add: toolSwitch_def)

lemma toolSwitch_list_cases:
  "toolSwitch rt others apiKey ''get_projects'' a = getProjects rt apiKey a"
  "toolSwitch rt others apiKey ''get_users'' a = getUsers rt apiKey a"
  "toolSwitch rt others apiKey ''get_time_entries'' a = getTimeEntries rt apiKey a"
  "toolSwitch rt others apiKey ''get_contacts'' a = getContacts rt apiKey a"
  "toolSwitch rt others apiKey ''get_customers'' a = getCustomers rt apiKey a"
  "toolSwitch rt others apiKey ''get_tasks'' a = getTasks rt apiKey a"
  "toolSwitch rt others apiKey ''get_invoices'' a = getInvoices rt apiKey a"
  "toolSwitch rt others apiKey ''get_expenses'' a = getExpenses rt apiKey a"
  "toolSwitch rt others apiKey ''get_mileage'' a = getMileage rt apiKey a"
  "toolSwitch rt others apiKey ''get_mileage_vehicles'' a = getMileageVehicles rt apiKey a"
  "toolSwitch rt others apiKey ''get_tags'' a = getTags rt apiKey a"
  by (simp_all add: toolSwitch_def)

lemma toolSwitch_delete_cases:
  "toolSwitch rt others apiKey ''delete_project'' a = deleteProject rt apiKey a"
  "toolSwitch rt others apiKey ''delete_contact'' a = deleteContact rt apiKey a"
  "toolSwitch rt others apiKey ''delete_customer'' a = deleteCustomer rt apiKey a"
  "toolSwitch rt others apiKey ''delete_expense'' a = deleteExpense rt apiKey a"
  "toolSwitch rt others apiKey ''delete_mileage'' a = deleteMileage rt apiKey a"
  by (simp_all add: toolSwitch_def)


lemma toolSwitch_get_by_id:
  "(name, path) \<in> set get_by_id_operations \<Longrightarrow>
   toolSwitch rt others apiKey name a = handleGetByIdRequest rt apiKey path (a ''id'') (a ''expand'')"
  unfolding get_by_id_operations_def
  by (simp only: set_simps insert_iff empty_iff prod.inject, elim disjE conjE FalseE)
    (simp_all only: toolSwitch_get_by_id_cases getProjectById_def getUserById_def
     getTimeEntryById_def getContactById_def getCustomerById_def getTaskById_def getInvoiceById_def
     getExpenseById_def getMileageById_def getMileageVehicleById_def getTagById_def)

lemma toolSwitch_list:
  "(name, path) \<in> set list_operations \<Longrightarrow>
   toolSwitch rt others apiKey name a = handleGetRequest rt apiKey path a JNull"
  unfolding list_operations_def
  by (simp only: set_simps insert_iff empty_iff prod.inject, elim disjE conjE FalseE)
    (simp_all only: toolSwitch_list_cases getProjects_def getUsers_def
     getTimeEntries_def getContacts_def getCustomers_def getTasks_def getInvoices_def
     getExpenses_def getMileage_def getMileageVehicles_def getTags_def)

lemma toolSwitch_delete:
  "(name, path, label) \<in> set delete_operations \<Longrightarrow>
   \<exists>what. toolSwitch rt others apiKey name a = deleteResource rt apiKey path label what a"
  unfolding delete_operations_def
  by (simp only: set_simps insert_iff empty_iff prod.inject, elim disjE conjE FalseE)
    (simp_all only: toolSwitch_delete_cases deleteProject_def deleteContact_def
     deleteCustomer_def deleteExpense_def deleteMileage_def, blast+)


lemma usp_toString_empty: "usp_toString ps = [] \<longleftrightarrow> ps = []"
  by (induction ps rule: usp_toString.induct) auto

lemma query_suffix_Nil: "query_suffix [] = []"
  by (simp add: query_suffix_def)

lemma handleGetByIdRequest_requests:
  "k \<noteq> [] \<Longrightarrow> snd (handleGetByIdRequest rt (Some k) ep i e) =
     [build_request k (ep @ ''/'' @ toStr i @ query_suffix (if truthy e then [(''$expand'', toStr e)] else [])) no_options]"
  by (simp add: handleGetByIdRequest_def respond_requests makeRequest_requests usp_append_def)

lemma handleGetByIdRequest_Inr: "\<exists>res. fst (handleGetByIdRequest rt apiKey ep i e) = Inr res"
  by (simp add: handleGetByIdRequest_def respond_Inr Let_def)

lemma callToolHandler_Inr:
  "fst (toolSwitch rt others apiKey name a) = Inr res \<Longrightarrow>
   callToolHandler rt others apiKey name a = (Inr res, snd (toolSwitch rt others apiKey name a))"
  by (simp add: callToolHandler_def)

lemma sample_fetch_undefined:
  "fetch sample_runtime (build_request ''secret'' ''/projects/undefined'' no_options)
     = Responded \<lparr>status = 404, statusText = ''Not Found'', body_text = Inr ''no such item''\<rparr>"
  by (simp add: sample_runtime_def sample_fetch_def build_request_def baseUrl_def)

lemma show_int_32603: "show_int (- 32603) = ''-32603''"
  by (simp add: show_int_def show_nat.simps [of 32603] show_nat.simps [of 3260] show_nat.simps [of 326]
    show_nat.simps [of 32] show_nat.simps [of 3] digit_char_def)

lemma sample_message:
  "mcpMessage sample_runtime InternalError m = ''MCP error -32603: '' @ m"
  by (simp add: sample_runtime_def error_number_def show_int_32603)

text \<open>
  Claim C4, as stated, fails: without \<^verbatim>\<open>id\<close> the handler raises nothing of its own. It
  asks the remote service for the path that ends in \<^verbatim>\<open>undefined\<close>, and the result is
  what that request gives.
\<close>

theorem get_by_id_without_id_counterexample:
  "callToolHandler sample_runtime no_others (Some ''secret'') ''get_project_by_id'' no_args =
     (Inr \<lparr>content_text = ''Error retrieving data from /projects/undefined: MCP error -32603: TimeChimp API error: 404 Not Found - no such item'',
           isError = True\<rparr>,
      [build_request ''secret'' ''/projects/undefined'' no_options])"
  by (simp add: callToolHandler_def toolSwitch_get_by_id_cases getProjectById_def
      handleGetByIdRequest_def no_args_def query_suffix_Nil respond_def
      makeRequest_status_error [OF _ sample_fetch_undefined] ok_def show_nat_404 message_def
      sample_message)

text \<open>
  Claim C4, amended. For each get-by-id tool, with a credential configured and an
  argument bag without \<^verbatim>\<open>id\<close>, the handler checks nothing: it makes one request, to
  the resource path followed by \<^verbatim>\<open>/undefined\<close> and the \<^verbatim>\<open>$expand\<close> parameter if there
  is one, and it returns the result of that request, never an error of its own: the
  data as JSON text when \<^verbatim>\<open>makeRequest\<close> returns, and otherwise the error result whose
  text is \<^verbatim>\<open>Error retrieving data from\<close>, the path, and the message of the error.
\<close>

theorem get_by_id_without_id:
  "(name, path) \<in> set get_by_id_operations \<Longrightarrow> a ''id'' = JUndefined \<Longrightarrow> k \<noteq> [] \<Longrightarrow>
   callToolHandler rt others (Some k) name a =
     respond rt (stringify rt) (''Error retrieving data from '' @ path @ ''/undefined: '')
       (makeRequest rt (Some k)
          (path @ ''/undefined''
           @ query_suffix
               (if truthy (a ''expand'') then [(''$expand'', toStr (a ''expand''))] else []))
          no_options)
   \<and> snd (callToolHandler rt others (Some k) name a) =
     [build_request k
        (path @ ''/undefined''
         @ query_suffix (if truthy (a ''expand'') then [(''$expand'', toStr (a ''expand''))] else []))
        no_options]
   \<and> (\<exists>res. fst (callToolHandler rt others (Some k) name a) = Inr res)"
proof -
  assume op: "(name, path) \<in> set get_by_id_operations" and i: "a ''id'' = JUndefined"
    and k: "k \<noteq> []"
  let ?h = "handleGetByIdRequest rt (Some k) path (a ''id'') (a ''expand'')"
  obtain res where r: "fst ?h = Inr res"
    using handleGetByIdRequest_Inr by blast
  have c: "callToolHandler rt others (Some k) name a = (Inr res, snd ?h)"
    using callToolHandler_Inr [of rt others "Some k" name a res] r
      toolSwitch_get_by_id [OF op, of rt others "Some k" a]
    by simp
  have "(Inr res, snd ?h) = ?h"
    using r by (metis prod.collapse)
  with c have e: "callToolHandler rt others (Some k) name a = ?h" by simp
  have u: "?h =
     respond rt (stringify rt) (''Error retrieving data from '' @ path @ ''/undefined: '')
       (makeRequest rt (Some k)
          (path @ ''/undefined''
           @ query_suffix
               (if truthy (a ''expand'') then [(''$expand'', toStr (a ''expand''))] else []))
          no_options)"
    by (simp add: handleGetByIdRequest_def i usp_append_def)
  have 1: "callToolHandler rt others (Some k) name a =
     respond rt (stringify rt) (''Error retrieving data from '' @ path @ ''/undefined: '')
       (makeRequest rt (Some k)
          (path @ ''/undefined''
           @ query_suffix
               (if truthy (a ''expand'') then [(''$expand'', toStr (a ''expand''))] else []))
          no_options)"
    using e u by (rule trans)
  have 2: "snd (callToolHandler rt others (Some k) name a) =
     [build_request k
        (path @ ''/undefined''
         @ query_suffix (if truthy (a ''expand'') then [(''$expand'', toStr (a ''expand''))] else []))
        no_options]"
    unfolding e
    using handleGetByIdRequest_requests [OF k, of rt path "a ''id''" "a ''expand''"] i
    by simp
  have 3: "\<exists>res. fst (callToolHandler rt others (Some k) name a) = Inr res"
    unfolding c by simp
  from 1 2 3 show ?thesis by (intro conjI)
qed

lemma get_project_by_id_op: "(''get_project_by_id'', ''/projects'') \<in> set get_by_id_operations"
  by (simp add: get_by_id_operations_def)

theorem get_by_id_without_id_witness:
  "snd (callToolHandler sample_runtime no_others (Some ''secret'') ''get_project_by_id'' no_args) =
     [build_request ''secret'' ''/projects/undefined'' no_options]"
  using get_by_id_without_id
      [OF get_project_by_id_op, of no_args "''secret''" sample_runtime no_others]
  by (simp add: no_args_def query_suffix_Nil respond_requests makeRequest_requests)

lemma show_int_42: "show_int 42 = ''42''"
  by (simp add: show_int_def show_nat.simps [of 42] show_nat.simps [of 4] digit_char_def)

lemma show_int_7: "show_int 7 = ''7''"
  by (simp add: show_int_def show_nat.simps [of 7] digit_char_def)

lemma sample_delete_42:
  "fst (makeRequest sample_runtime (Some ''secret'')
          (''/projects'' @ ''/'' @ toStr (delete_42 ''id'')) delete_options) = Inr ''{}''"
  by (simp add: delete_42_def show_int_42 makeRequest_def Let_def sample_runtime_def
      sample_fetch_def build_request_def ok_def response_json_def sample_parse_def
      request_catch_def)

lemma delete_project_op:
  "(''delete_project'', ''/projects'', ''Project'') \<in> set delete_operations"
  by (simp add: delete_operations_def)

lemma makeRequest_json_failure:
  "k \<noteq> [] \<Longrightarrow> fetch rt (build_request k endpoint opts) = Responded r \<Longrightarrow> ok r \<Longrightarrow>
   response_json rt r = Inl (JsError m) \<Longrightarrow>
   makeRequest rt (Some k) endpoint opts =
     (Inl (McpError InternalError (''Request failed: '' @ m)), [build_request k endpoint opts])"
  by (simp add: makeRequest_def Let_def request_catch_def)

text \<open>
  When \<^verbatim>\<open>makeRequest\<close> returns, whatever it returns, a delete tool answers with its
  confirmation; the requests are those of \<^verbatim>\<open>makeRequest\<close>.
\<close>

lemma delete_confirmation:
  "(name, path, label) \<in> set delete_operations \<Longrightarrow>
   fst (makeRequest rt apiKey (path @ ''/'' @ toStr (a ''id'')) delete_options) = Inr data \<Longrightarrow>
   callToolHandler rt others apiKey name a =
     (Inr \<lparr>content_text = label @ '' '' @ toStr (a ''id'') @ '' deleted successfully'',
           isError = False\<rparr>,
      snd (makeRequest rt apiKey (path @ ''/'' @ toStr (a ''id'')) delete_options))"
proof -
  assume op: "(name, path, label) \<in> set delete_operations"
    and ok: "fst (makeRequest rt apiKey (path @ ''/'' @ toStr (a ''id'')) delete_options)
               = Inr data"
  obtain what
    where w: "toolSwitch rt others apiKey name a = deleteResource rt apiKey path label what a"
    using toolSwitch_delete [OF op] by blast
  have "deleteResource rt apiKey path label what a =
     (Inr \<lparr>content_text = label @ '' '' @ toStr (a ''id'') @ '' deleted successfully'',
           isError = False\<rparr>,
      snd (makeRequest rt apiKey (path @ ''/'' @ toStr (a ''id'')) delete_options))"
    using ok by (simp add: deleteResource_def respond_def Let_def)
  then show ?thesis
    using callToolHandler_Inr [of rt others apiKey name a] w by simp
qed

lemma delete_confirmation_42:
  "fst (callToolHandler sample_runtime no_others (Some ''secret'') ''delete_project'' delete_42)
     = Inr \<lparr>content_text = ''Project 42 deleted successfully'', isError = False\<rparr>"
  using delete_confirmation [where name = "''delete_project''" and path = "''/projects''"
      and label = "''Project''" and rt = sample_runtime and apiKey = "Some ''secret''"
      and a = delete_42 and data = "''{}''" and others = no_others]
    delete_project_op sample_delete_42
  by (simp add: delete_42_def show_int_42)

text \<open>
  When the service accepts a delete and answers with a body that \<^verbatim>\<open>response.json()\<close>
  cannot parse, the empty body included, every delete tool answers with an error.
\<close>

lemma delete_unparsable_body:
  "(name, path, label) \<in> set delete_operations \<Longrightarrow> k \<noteq> [] \<Longrightarrow>
   fetch rt (build_request k (path @ ''/'' @ toStr (a ''id'')) delete_options) = Responded r \<Longrightarrow>
   ok r \<Longrightarrow> response_json rt r = Inl (JsError m) \<Longrightarrow>
   \<exists>res. callToolHandler rt others (Some k) name a =
           (Inr res, [build_request k (path @ ''/'' @ toStr (a ''id'')) delete_options])
         \<and> isError res"
proof -
  assume op: "(name, path, label) \<in> set delete_operations" and k: "k \<noteq> []"
    and f: "fetch rt (build_request k (path @ ''/'' @ toStr (a ''id'')) delete_options)
              = Responded r"
    and o: "ok r" and j: "response_json rt r = Inl (JsError m)"
  obtain what
    where w: "toolSwitch rt others (Some k) name a
                = deleteResource rt (Some k) path label what a"
    using toolSwitch_delete [OF op] by blast
  let ?res = "\<lparr>content_text = ''Error deleting '' @ what @ '': ''
                   @ mcpMessage rt InternalError (''Request failed: '' @ m),
                isError = True\<rparr>"
  have d: "deleteResource rt (Some k) path label what a =
     (Inr ?res, [build_request k (path @ ''/'' @ toStr (a ''id'')) delete_options])"
    using makeRequest_json_failure [OF k f o j]
    by (simp add: deleteResource_def respond_def Let_def message_def)
  have "callToolHandler rt others (Some k) name a =
     (Inr ?res, [build_request k (path @ ''/'' @ toStr (a ''id'')) delete_options])"
    using callToolHandler_Inr [of rt others "Some k" name a ?res] w d by simp
  moreover have "isError ?res" by simp
  ultimately show ?thesis by blast
qed

text \<open>
  Claim C9. The claim is what the delete handlers are written for, but the code does not
  meet it when the service accepts the delete and sends no body: \<^verbatim>\<open>makeRequest\<close> calls
  \<^verbatim>\<open>response.json()\<close> on every success, the empty body does not parse, and the tool
  answers with an error instead of the confirmation, although the request was made and
  accepted.
\<close>

theorem delete_empty_body_is_error:
  "callToolHandler sample_runtime no_others (Some ''secret'') ''delete_project'' delete_7 =
     (Inr \<lparr>content_text =
             ''Error deleting project: MCP error -32603: Request failed: Unexpected end of JSON input'',
           isError = True\<rparr>,
      [build_request ''secret'' ''/projects/7'' delete_options])"
  using makeRequest_json_failure
      [of "''secret''" sample_runtime "''/projects/7''" delete_options
        "\<lparr>status = 204, statusText = ''No Content'', body_text = Inr []\<rparr>"
        "''Unexpected end of JSON input''"]
  by (simp add: callToolHandler_def toolSwitch_delete_cases deleteProject_def deleteResource_def
      delete_7_def no_args_def show_int_7 respond_def message_def sample_message
      sample_fetch_delete7 sample_json_empty ok_def)

end
